theory Spec2Isabelle
  imports Main "HOL-Library.Sublist" "HOL-Library.Multiset"
begin

section \<open>Coping tool recommendation engine (copingRecommendation.ts)\<close>

subsection \<open>Data model\<close>

text \<open>
  \<open>CopingCategory\<close> and \<open>IntensityLevel\<close> are closed string-literal unions of the static,
  type-checked catalog; they are datatypes. \<open>Mood\<close> is a string-literal union as well
  (\<open>anxious | frustrated | sad | neutral | calm | happy\<close>), but TypeScript erases it and the
  mood of a check-in reaches the engine from storage without any validation, so a mood
  is modelled as the string it is at run time. Strings are lists of 8-bit characters
  (the Latin-1 range of JavaScript's UTF-16 code units).
\<close>

datatype CopingCategory = Breathing | Grounding | Cognitive | Movement | Reflection

datatype IntensityLevel = Low | Medium | High

type_synonym Mood = string

definition MOODS :: "Mood list" where
  "MOODS = [''anxious'', ''frustrated'', ''sad'', ''neutral'', ''calm'', ''happy'']"

text \<open>The text a category has inside a template string.\<close>

fun category_name :: "CopingCategory \<Rightarrow> string" where
  "category_name Breathing = ''breathing''"
| "category_name Grounding = ''grounding''"
| "category_name Cognitive = ''cognitive''"
| "category_name Movement = ''movement''"
| "category_name Reflection = ''reflection''"

record CopingTool =
  tool_id :: string
  title :: string
  description :: string
  category :: CopingCategory
  supportedMoods :: "Mood list"
  intensityLevel :: IntensityLevel
  durationMinutes :: int
  icon :: string
  color :: string
  tool_type :: string

record RecommendedTool = CopingTool +
  score :: int
  reason :: string

text \<open>
  \<open>moodIntensity\<close> is a JavaScript number. \<open>None\<close> stands for a value that is not a
  number (\<open>undefined\<close>, \<open>NaN\<close>): every comparison \<open>>=\<close> with it is false.
\<close>

record RecommendationContext =
  currentMood :: "Mood option"
  moodIntensity :: "int option"
  recentChatSummary :: string
  chatKeywords :: "string list"

record CheckIn =
  mood :: Mood
  createdAt :: string

record ChatMessage =
  msg_text :: string

record Sentiment =
  matched_keywords :: "string list"
  hasCrisis :: bool
  hasLowMood :: bool
  hasStress :: bool

text \<open>An exception thrown by a function; the engine has one kind to report.\<close>

datatype error = InvalidInput

subsection \<open>JavaScript primitives used by the engine\<close>

text \<open>\<open>String.prototype.toLowerCase\<close> on the Latin-1 range: A-Z and the accented capitals.\<close>

definition lower_char :: "char \<Rightarrow> char" where
  "lower_char c =
     (let n = (of_char c :: nat)
      in if (65 \<le> n \<and> n \<le> 90) \<or> (192 \<le> n \<and> n \<le> 214) \<or> (216 \<le> n \<and> n \<le> 222)
         then char_of (n + 32) else c)"

definition toLowerCase :: "string \<Rightarrow> string" where
  "toLowerCase s = map lower_char s"

text \<open>\<open>String.prototype.includes\<close>: the keyword occurs as a contiguous substring.\<close>

fun str_includes :: "string \<Rightarrow> string \<Rightarrow> bool" where
  "str_includes [] kw = (kw = [])"
| "str_includes (c # s) kw = (prefix kw (c # s) \<or> str_includes s kw)"

text \<open>\<open>Array.prototype.join\<close>.\<close>

fun join :: "string \<Rightarrow> string list \<Rightarrow> string" where
  "join sep [] = []"
| "join sep [x] = x"
| "join sep (x # y # ys) = x @ sep @ join sep (y # ys)"

text \<open>Truthiness of a \<open>Mood | null\<close> value: \<open>null\<close> and the empty string are falsy.\<close>

fun truthy :: "Mood option \<Rightarrow> bool" where
  "truthy None = False"
| "truthy (Some m) = (m \<noteq> [])"

text \<open>\<open>supportedMoods.includes(currentMood)\<close>; \<open>null\<close> is no element of a mood array.\<close>

fun includesMood :: "Mood list \<Rightarrow> Mood option \<Rightarrow> bool" where
  "includesMood ms None = False"
| "includesMood ms (Some m) = (m \<in> set ms)"

text \<open>\<open>x >= k\<close> for a number that may be \<open>undefined\<close>.\<close>

fun num_ge :: "int option \<Rightarrow> int \<Rightarrow> bool" where
  "num_ge None k = False"
| "num_ge (Some n) k = (k \<le> n)"

text \<open>
  \<open>Array.prototype.sort(cmp)\<close>: ECMAScript (2019 and later) requires a stable sort; an
  element goes before another when \<open>cmp\<close> is negative and keeps its place when it is 0.
  Modelled as a stable insertion sort by the comparator.
\<close>

fun insert_cmp :: "('a \<Rightarrow> 'a \<Rightarrow> int) \<Rightarrow> 'a \<Rightarrow> 'a list \<Rightarrow> 'a list" where
  "insert_cmp cmp x [] = [x]"
| "insert_cmp cmp x (y # ys) =
     (if cmp x y \<le> 0 then x # y # ys else y # insert_cmp cmp x ys)"

definition array_sort :: "('a \<Rightarrow> 'a \<Rightarrow> int) \<Rightarrow> 'a list \<Rightarrow> 'a list" where
  "array_sort cmp xs = foldr (insert_cmp cmp) xs []"

subsection \<open>Sentiment and keyword analysis\<close>

definition CRISIS_KEYWORDS :: "string list" where
  "CRISIS_KEYWORDS =
     [''panic'', ''overwhelmed'', ''heart racing'', ''can't breathe'', ''scared'',
      ''terrified'', ''anxiety attack'', ''out of control'', ''dizzy'', ''shaking'']"

definition LOW_MOOD_KEYWORDS :: "string list" where
  "LOW_MOOD_KEYWORDS =
     [''tired'', ''hopeless'', ''alone'', ''sad'', ''depressed'', ''empty'',
      ''worthless'', ''numb'', ''crying'', ''heavy'', ''dark'']"

definition STRESS_KEYWORDS :: "string list" where
  "STRESS_KEYWORDS =
     [''stressed'', ''overloaded'', ''too much'', ''pressure'', ''deadline'',
      ''exhausted'', ''tense'', ''tight'', ''sore'', ''headache'']"

text \<open>
  \<open>KEYWORDS.some(kw => { if (lower.includes(kw)) { keywords.push(kw); return true; }
  return false; })\<close>: the scan stops at the first keyword found; the \<open>keywords\<close> array is
  passed through.
\<close>

fun some_push :: "string \<Rightarrow> string list \<Rightarrow> string list \<Rightarrow> bool \<times> string list" where
  "some_push lower [] keywords = (False, keywords)"
| "some_push lower (kw # rest) keywords =
     (if str_includes lower kw then (True, keywords @ [kw])
      else some_push lower rest keywords)"

definition analyzeChatSentiment :: "string \<Rightarrow> Sentiment" where
  "analyzeChatSentiment chatText =
     (let lower = toLowerCase chatText;
          keywords0 = [];
          (hasCrisis, keywords1) = some_push lower CRISIS_KEYWORDS keywords0;
          (hasLowMood, keywords2) = some_push lower LOW_MOOD_KEYWORDS keywords1;
          (hasStress, keywords3) = some_push lower STRESS_KEYWORDS keywords2
      in \<lparr>matched_keywords = keywords3, hasCrisis = hasCrisis,
          hasLowMood = hasLowMood, hasStress = hasStress\<rparr>)"

subsection \<open>Mood intensity mapping\<close>

definition intensityMap :: "(Mood \<times> int) list" where
  "intensityMap =
     [(''anxious'', 8), (''frustrated'', 7), (''sad'', 6),
      (''neutral'', 4), (''calm'', 3), (''happy'', 2)]"

text \<open>
  \<open>mood ? intensityMap[mood] : 5\<close>. A key without an entry reads as \<open>undefined\<close>
  (and a key inherited from \<open>Object.prototype\<close> as a value that is no number): \<open>None\<close>.
\<close>

definition getMoodIntensity :: "Mood option \<Rightarrow> int option" where
  "getMoodIntensity m =
     (case m of
        None \<Rightarrow> Some 5
      | Some k \<Rightarrow> if truthy (Some k) then map_of intensityMap k else Some 5)"

subsection \<open>Core recommendation algorithm\<close>

text \<open>
  \<open>scoreTool\<close>: the running \<open>score\<close> goes through the four blocks of the source in
  order (\<open>score1\<close> after mood compatibility, \<open>score2\<close> after chat sentiment, \<open>score3\<close>
  after intensity matching, \<open>score4\<close> after duration preference) and is capped at 100.
\<close>

definition scoreTool :: "CopingTool \<Rightarrow> RecommendationContext \<Rightarrow> int" where
  "scoreTool tool context =
     (let score0 = 0;
          score1 =
            (if truthy (currentMood context)
                \<and> includesMood (supportedMoods tool) (currentMood context)
             then score0 + 40
             else if truthy (currentMood context) then score0 + 20
             else score0);
          sentiment = analyzeChatSentiment (recentChatSummary context);
          score2 =
            (if hasCrisis sentiment then
               (if category tool = Breathing \<or> category tool = Grounding
                then score1 + 30 else score1)
             else if hasLowMood sentiment then
               (if category tool = Reflection \<or> category tool = Cognitive
                then score1 + 30 else score1)
             else if hasStress sentiment then
               (if category tool = Movement \<or> category tool = Grounding
                then score1 + 30 else score1)
             else score1);
          score3 =
            (if num_ge (moodIntensity context) 7 then
               (let s = (if intensityLevel tool = High then score2 + 20 else score2)
                in if intensityLevel tool = Medium then s + 10 else s)
             else if num_ge (moodIntensity context) 4 then
               (let s = (if intensityLevel tool = Medium then score2 + 20 else score2)
                in if intensityLevel tool = Low then s + 15 else s)
             else
               (let s = (if intensityLevel tool = Low then score2 + 20 else score2)
                in if intensityLevel tool = Medium then s + 10 else s));
          score4 =
            (if \<not> truthy (currentMood context) \<or> currentMood context = Some ''neutral''
             then (if durationMinutes tool \<le> 3 then score3 + 10
                   else if durationMinutes tool \<le> 5 then score3 + 5
                   else score3)
             else score3)
      in min score4 100)"

text \<open>
  The \<open>reasons\<close> array of \<open>generateExplanation\<close> as it stands before the final
  explanation is constructed.
\<close>

definition explanationReasons :: "CopingTool \<Rightarrow> RecommendationContext \<Rightarrow> string list" where
  "explanationReasons tool context =
     (let reasons0 = [];
          sentiment = analyzeChatSentiment (recentChatSummary context);
          reasons1 =
            (case currentMood context of
               Some moodLabel \<Rightarrow>
                 if truthy (Some moodLabel)
                 then reasons0 @ [''you felt '' @ moodLabel @ '' today'']
                 else reasons0
             | None \<Rightarrow> reasons0);
          reasons2 =
            (if hasCrisis sentiment
                \<and> (category tool = Breathing \<or> category tool = Grounding)
             then reasons1 @ [''you mentioned feeling overwhelmed'']
             else if hasLowMood sentiment
                \<and> (category tool = Reflection \<or> category tool = Cognitive)
             then reasons1 @ [''you expressed feelings of sadness or hopelessness'']
             else if hasStress sentiment
                \<and> (category tool = Movement \<or> category tool = Grounding)
             then reasons1 @ [''you mentioned feeling stressed or tense'']
             else reasons1);
          reasons3 =
            (if num_ge (moodIntensity context) 7 \<and> intensityLevel tool = High
             then reasons2 @ [''this offers quick relief'']
             else reasons2)
      in reasons3)"

definition generateExplanation :: "CopingTool \<Rightarrow> RecommendationContext \<Rightarrow> string" where
  "generateExplanation tool context =
     (let reasons = explanationReasons tool context
      in if length reasons = 0
         then ''This '' @ category_name (category tool) @ '' technique is gentle and effective.''
         else (let reasonText = join '' and '' reasons
               in ''This technique is suggested because '' @ reasonText @ ''.''))"

text \<open>\<open>{...tool, score: scoreTool(tool, context), reason: generateExplanation(tool, context)}\<close>\<close>

definition scored :: "RecommendationContext \<Rightarrow> CopingTool \<Rightarrow> RecommendedTool" where
  "scored context tool =
     CopingTool.extend tool
       (RecommendedTool.fields (scoreTool tool context) (generateExplanation tool context))"

definition getRecommendedCopingTools ::
    "CopingTool list \<Rightarrow> RecommendationContext \<Rightarrow> RecommendedTool list" where
  "getRecommendedCopingTools tools context =
     (let scoredTools = map (scored context) tools
      in array_sort (\<lambda>a b. score b - score a) scoredTools)"

subsection \<open>Context construction\<close>

text \<open>
  \<open>buildRecommendationContext\<close> reads the clock and parses dates: \<open>today\<close> is
  \<open>new Date().toDateString()\<close> and \<open>toDateString s\<close> is \<open>new Date(s).toDateString()\<close>;
  both are parameters here. The optional \<open>chatMessages\<close> argument is \<open>None\<close> when it is
  left out. The result is \<open>Inr\<close> of the returned context; \<open>Inl\<close> would be a thrown
  exception, and the source has no \<open>throw\<close>.
\<close>

definition buildRecommendationContext ::
    "(string \<Rightarrow> string) \<Rightarrow> string \<Rightarrow> CheckIn list \<Rightarrow> ChatMessage list option
       \<Rightarrow> error + RecommendationContext" where
  "buildRecommendationContext toDateString today checkIns chatMessages =
     (let todayCheckIns = filter (\<lambda>item. toDateString (createdAt item) = today) checkIns;
          currentMood' =
            (case todayCheckIns of [] \<Rightarrow> None | first # _ \<Rightarrow> Some (mood first));
          moodIntensity' = getMoodIntensity currentMood';
          recentChatSummary' =
            (case chatMessages of
               Some ms \<Rightarrow> join '' '' (map msg_text (take 5 ms))
             | None \<Rightarrow> []);
          sentiment = analyzeChatSentiment recentChatSummary'
      in Inr \<lparr>currentMood = currentMood', moodIntensity = moodIntensity',
              recentChatSummary = recentChatSummary',
              chatKeywords = matched_keywords sentiment\<rparr>)"

subsection \<open>The four score components\<close>

text \<open>
  What each of the four commented blocks of \<open>scoreTool\<close> adds to the running score:
  mood compatibility (0-40), chat sentiment alignment (0-30), intensity matching (0-20)
  and duration preference (0-10).
\<close>

definition moodCompatibility :: "CopingTool \<Rightarrow> RecommendationContext \<Rightarrow> int" where
  "moodCompatibility tool context =
     (if truthy (currentMood context)
         \<and> includesMood (supportedMoods tool) (currentMood context) then 40
      else if truthy (currentMood context) then 20
      else 0)"

definition sentimentAlignment :: "CopingTool \<Rightarrow> RecommendationContext \<Rightarrow> int" where
  "sentimentAlignment tool context =
     (let sentiment = analyzeChatSentiment (recentChatSummary context)
      in if hasCrisis sentiment then
           (if category tool = Breathing \<or> category tool = Grounding then 30 else 0)
         else if hasLowMood sentiment then
           (if category tool = Reflection \<or> category tool = Cognitive then 30 else 0)
         else if hasStress sentiment then
           (if category tool = Movement \<or> category tool = Grounding then 30 else 0)
         else 0)"

definition intensityMatching :: "CopingTool \<Rightarrow> RecommendationContext \<Rightarrow> int" where
  "intensityMatching tool context =
     (if num_ge (moodIntensity context) 7 then
        (case intensityLevel tool of High \<Rightarrow> 20 | Medium \<Rightarrow> 10 | Low \<Rightarrow> 0)
      else if num_ge (moodIntensity context) 4 then
        (case intensityLevel tool of Medium \<Rightarrow> 20 | Low \<Rightarrow> 15 | High \<Rightarrow> 0)
      else
        (case intensityLevel tool of Low \<Rightarrow> 20 | Medium \<Rightarrow> 10 | High \<Rightarrow> 0))"

definition durationPreference :: "CopingTool \<Rightarrow> RecommendationContext \<Rightarrow> int" where
  "durationPreference tool context =
     (if \<not> truthy (currentMood context) \<or> currentMood context = Some ''neutral''
      then (if durationMinutes tool \<le> 3 then 10
            else if durationMinutes tool \<le> 5 then 5
            else 0)
      else 0)"

subsection \<open>First-match keyword capture, as the specification words it\<close>

text \<open>
  The specification of the analyzer: within one category the list is scanned in declared
  order against the lower-cased text and the scan stops at the first match, so a
  category records the earliest-declared matching term, or nothing.
\<close>

definition spec_first_match :: "string \<Rightarrow> string list \<Rightarrow> string list" where
  "spec_first_match chatText kws =
     (case List.find (\<lambda>kw. str_includes (toLowerCase chatText) kw) kws of
        None \<Rightarrow> []
      | Some kw \<Rightarrow> [kw])"

subsection \<open>Catalog entries and contexts used as concrete inputs\<close>

text \<open>Four entries of \<open>EVIDENCE_BASED_COPING_TOOLS\<close> (copingToolsData.ts).\<close>

definition box_breathing :: CopingTool where
  "box_breathing =
     \<lparr>tool_id = ''box-breathing'', title = ''Box Breathing'',
      description = ''4-4-4-4 breathing used by Navy SEALs to manage stress'',
      category = Breathing, supportedMoods = [''anxious'', ''frustrated'', ''neutral''],
      intensityLevel = High, durationMinutes = 2, icon = ''Wind'',
      color = ''bg-mint text-mint-foreground'', tool_type = ''box-breathing''\<rparr>"

definition breathing_478 :: CopingTool where
  "breathing_478 =
     \<lparr>tool_id = ''478-breathing'', title = ''4-7-8 Breathing'',
      description = ''Deeply calming breath pattern for sleep and anxiety'',
      category = Breathing,
      supportedMoods = [''anxious'', ''frustrated'', ''sad'', ''neutral''],
      intensityLevel = Medium, durationMinutes = 3, icon = ''Wind'',
      color = ''bg-mint text-mint-foreground'', tool_type = ''478-breathing''\<rparr>"

definition grounding_54321 :: CopingTool where
  "grounding_54321 =
     \<lparr>tool_id = ''54321-grounding'', title = ''5-4-3-2-1 Grounding'',
      description = ''Use your five senses to anchor yourself in the present moment'',
      category = Grounding, supportedMoods = [''anxious'', ''frustrated'', ''sad''],
      intensityLevel = High, durationMinutes = 3, icon = ''Mountain'',
      color = ''bg-lavender text-lavender-foreground'', tool_type = ''grounding''\<rparr>"

definition movement_reset :: CopingTool where
  "movement_reset =
     \<lparr>tool_id = ''quick-exercises'', title = ''Movement Reset'',
      description = ''Simple stretches and movements to release tension'',
      category = Movement,
      supportedMoods = [''frustrated'', ''anxious'', ''neutral'', ''happy''],
      intensityLevel = Medium, durationMinutes = 5, icon = ''Dumbbell'',
      color = ''bg-secondary text-secondary-foreground'', tool_type = ''exercises''\<rparr>"

text \<open>Scenario A of the documentation: an anxious check-in and a panic message.\<close>

definition scenario_A :: RecommendationContext where
  "scenario_A =
     \<lparr>currentMood = Some ''anxious'', moodIntensity = Some 8,
      recentChatSummary = ''I'm having a panic attack, can't breathe'',
      chatKeywords = [''panic'']\<rparr>"

text \<open>A chat summary that names a crisis keyword and a stress keyword.\<close>

definition crisis_and_stress_context :: RecommendationContext where
  "crisis_and_stress_context =
     \<lparr>currentMood = Some ''anxious'', moodIntensity = Some 8,
      recentChatSummary = ''I feel panic and I am so stressed'',
      chatKeywords = [''panic'', ''stressed'']\<rparr>"

text \<open>A neutral check-in (intensity 4) and a crisis keyword.\<close>

definition neutral_crisis_context :: RecommendationContext where
  "neutral_crisis_context =
     \<lparr>currentMood = Some ''neutral'', moodIntensity = Some 4,
      recentChatSummary = ''panic'', chatKeywords = [''panic'']\<rparr>"

section \<open>Properties\<close>

subsection \<open>The sentiment analyzer\<close>

lemmas keyword_defs = CRISIS_KEYWORDS_def LOW_MOOD_KEYWORDS_def STRESS_KEYWORDS_def

text \<open>\<open>str_includes\<close> is the substring relation.\<close>

lemma str_includes_iff: "str_includes s kw \<longleftrightarrow> (\<exists>ps ss. s = ps @ kw @ ss)"
proof (induction s)
  case Nil
  then show ?case by simp
next
  case (Cons c s)
  show ?case
  proof
    assume "str_includes (c # s) kw"
    then consider "prefix kw (c # s)" | "str_includes s kw"
      by (simp only: str_includes.simps) blast
    then show "\<exists>ps ss. c # s = ps @ kw @ ss"
    proof cases
      case 1
      then obtain ss where "c # s = kw @ ss" unfolding prefix_def by blast
      then have "c # s = [] @ kw @ ss" by simp
      then show ?thesis by blast
    next
      case 2
      with Cons.IH obtain ps ss where "s = ps @ kw @ ss" by blast
      then have "c # s = (c # ps) @ kw @ ss" by simp
      then show ?thesis by blast
    qed
  next
    assume "\<exists>ps ss. c # s = ps @ kw @ ss"
    then obtain ps ss where eq: "c # s = ps @ kw @ ss" by blast
    show "str_includes (c # s) kw"
    proof (cases ps)
      case Nil
      with eq have "prefix kw (c # s)" unfolding prefix_def by simp
      then show ?thesis by (simp only: str_includes.simps simp_thms)
    next
      case (Cons p ps')
      with eq have "s = ps' @ kw @ ss" by simp
      with Cons.IH have "str_includes s kw" by blast
      then show ?thesis by (simp only: str_includes.simps simp_thms)
    qed
  qed
qed

lemma lower_char_idem: "lower_char (lower_char c) = lower_char c"
proof -
  have "of_char (char_of (n + 32) :: char) = n + 32" if "n \<le> 222" for n :: nat
    using that by simp
  then show ?thesis
    by (auto simp: lower_char_def Let_def)
qed

lemma toLowerCase_idem: "toLowerCase (toLowerCase s) = toLowerCase s"
  by (simp add: toLowerCase_def lower_char_idem)

lemma some_push_find:
  "some_push lower kws acc =
     (case List.find (str_includes lower) kws of
        None \<Rightarrow> (False, acc)
      | Some kw \<Rightarrow> (True, acc @ [kw]))"
  by (induction kws) auto

lemma some_push_first_match:
  "some_push (toLowerCase t) kws acc =
     (spec_first_match t kws \<noteq> [], acc @ spec_first_match t kws)"
  by (simp add: some_push_find spec_first_match_def split: option.splits)

lemma analyze_keywords:
  "matched_keywords (analyzeChatSentiment t) =
     spec_first_match t CRISIS_KEYWORDS @ spec_first_match t LOW_MOOD_KEYWORDS
       @ spec_first_match t STRESS_KEYWORDS"
  by (simp add: analyzeChatSentiment_def some_push_first_match)

lemma analyze_hasCrisis:
  "hasCrisis (analyzeChatSentiment t) = (spec_first_match t CRISIS_KEYWORDS \<noteq> [])"
  by (simp add: analyzeChatSentiment_def some_push_first_match)

lemma analyze_hasLowMood:
  "hasLowMood (analyzeChatSentiment t) = (spec_first_match t LOW_MOOD_KEYWORDS \<noteq> [])"
  by (simp add: analyzeChatSentiment_def some_push_first_match)

lemma analyze_hasStress:
  "hasStress (analyzeChatSentiment t) = (spec_first_match t STRESS_KEYWORDS \<noteq> [])"
  by (simp add: analyzeChatSentiment_def some_push_first_match)

lemma length_first_match: "length (spec_first_match t kws) \<le> 1"
  by (simp add: spec_first_match_def split: option.splits)

lemma first_match_lower: "spec_first_match (toLowerCase t) kws = spec_first_match t kws"
  by (simp add: spec_first_match_def toLowerCase_idem)

lemma analyze_lower: "analyzeChatSentiment (toLowerCase t) = analyzeChatSentiment t"
  by (simp add: analyzeChatSentiment_def toLowerCase_idem)

text \<open>The first match is a term of the list that occurs in the text, and no term
  declared before it occurs.\<close>

lemma first_match_earliest:
  assumes "spec_first_match t kws = [kw]"
  shows "\<exists>i < length kws. kws ! i = kw \<and> str_includes (toLowerCase t) kw
           \<and> (\<forall>j < i. \<not> str_includes (toLowerCase t) (kws ! j))"
proof -
  from assms have "List.find (str_includes (toLowerCase t)) kws = Some kw"
    by (simp add: spec_first_match_def split: option.splits)
  then show ?thesis by (auto simp: find_Some_iff)
qed

lemma analyze_scenario_A:
  "analyzeChatSentiment ''I'm having a panic attack, can't breathe''
     = \<lparr>matched_keywords = [''panic''], hasCrisis = True,
        hasLowMood = False, hasStress = False\<rparr>"
  by (simp add: analyzeChatSentiment_def toLowerCase_def lower_char_def keyword_defs)

lemma analyze_crisis_and_stress:
  "analyzeChatSentiment ''I feel panic and I am so stressed''
     = \<lparr>matched_keywords = [''panic'', ''stressed''], hasCrisis = True,
        hasLowMood = False, hasStress = True\<rparr>"
  by (simp add: analyzeChatSentiment_def toLowerCase_def lower_char_def keyword_defs)

lemma analyze_panic:
  "analyzeChatSentiment ''panic''
     = \<lparr>matched_keywords = [''panic''], hasCrisis = True,
        hasLowMood = False, hasStress = False\<rparr>"
  by (simp add: analyzeChatSentiment_def toLowerCase_def lower_char_def keyword_defs)

lemma analyze_empty:
  "analyzeChatSentiment []
     = \<lparr>matched_keywords = [], hasCrisis = False, hasLowMood = False, hasStress = False\<rparr>"
  by (simp add: analyzeChatSentiment_def toLowerCase_def keyword_defs)

text \<open>
  Claim C7. For every input text the analyzer records, per category, the first term of
  the category's list (in declared order) that occurs in the lower-cased text, and
  nothing more: the keywords are the first matches of the crisis, low-mood and stress
  lists in this order, at most one per category and at most three in all; a flag is true
  exactly when its category has a match; the case of the text's letters is irrelevant.
\<close>

theorem analyzer_first_match_only:
  "matched_keywords (analyzeChatSentiment t) =
     spec_first_match t CRISIS_KEYWORDS @ spec_first_match t LOW_MOOD_KEYWORDS
       @ spec_first_match t STRESS_KEYWORDS
   \<and> length (spec_first_match t CRISIS_KEYWORDS) \<le> 1
   \<and> length (spec_first_match t LOW_MOOD_KEYWORDS) \<le> 1
   \<and> length (spec_first_match t STRESS_KEYWORDS) \<le> 1
   \<and> length (matched_keywords (analyzeChatSentiment t)) \<le> 3
   \<and> hasCrisis (analyzeChatSentiment t) = (spec_first_match t CRISIS_KEYWORDS \<noteq> [])
   \<and> hasLowMood (analyzeChatSentiment t) = (spec_first_match t LOW_MOOD_KEYWORDS \<noteq> [])
   \<and> hasStress (analyzeChatSentiment t) = (spec_first_match t STRESS_KEYWORDS \<noteq> [])
   \<and> analyzeChatSentiment (toLowerCase t) = analyzeChatSentiment t"
proof -
  have "length (matched_keywords (analyzeChatSentiment t)) \<le> 3"
    using length_first_match [of t CRISIS_KEYWORDS] length_first_match [of t LOW_MOOD_KEYWORDS]
      length_first_match [of t STRESS_KEYWORDS]
    by (simp add: analyze_keywords)
  with analyze_keywords [of t] analyze_hasCrisis [of t] analyze_hasLowMood [of t]
    analyze_hasStress [of t] analyze_lower [of t]
    length_first_match [of t CRISIS_KEYWORDS] length_first_match [of t LOW_MOOD_KEYWORDS]
    length_first_match [of t STRESS_KEYWORDS]
  show ?thesis by blast
qed

text \<open>Several crisis, low-mood and stress terms in one text: one keyword per category.\<close>

theorem analyzer_first_match_only_witness:
  "matched_keywords
     (analyzeChatSentiment ''So SCARED, total Panic. Sad, tired, Stressed by the deadline'')
   = [''panic'', ''tired'', ''stressed'']"
proof -
  have "spec_first_match ''So SCARED, total Panic. Sad, tired, Stressed by the deadline''
          CRISIS_KEYWORDS = [''panic'']"
    by code_simp
  moreover have "spec_first_match ''So SCARED, total Panic. Sad, tired, Stressed by the deadline''
          LOW_MOOD_KEYWORDS = [''tired'']"
    by code_simp
  moreover have "spec_first_match ''So SCARED, total Panic. Sad, tired, Stressed by the deadline''
          STRESS_KEYWORDS = [''stressed'']"
    by code_simp
  ultimately show ?thesis
    using analyzer_first_match_only
      [of "''So SCARED, total Panic. Sad, tired, Stressed by the deadline''"]
    by simp
qed

subsection \<open>The scoring engine\<close>

lemma moodCompatibility_range: "moodCompatibility t c \<in> {0, 20, 40}"
  by (simp add: moodCompatibility_def)

lemma sentimentAlignment_range: "sentimentAlignment t c \<in> {0, 30}"
  by (simp add: sentimentAlignment_def Let_def)

lemma intensityMatching_range: "intensityMatching t c \<in> {0, 10, 15, 20}"
  by (cases "intensityLevel t") (simp_all add: intensityMatching_def)

lemma durationPreference_range: "durationPreference t c \<in> {0, 5, 10}"
  by (simp add: durationPreference_def)

text \<open>Each block of \<open>scoreTool\<close> adds its component to the running score \<open>x\<close>.\<close>

lemma mood_block:
  "(if truthy (currentMood c) \<and> includesMood (supportedMoods t) (currentMood c)
    then x + 40
    else if truthy (currentMood c) then x + 20 else x)
   = x + moodCompatibility t c"
  by (simp add: moodCompatibility_def)

lemma sentiment_block:
  "(if hasCrisis s then
      (if category t = Breathing \<or> category t = Grounding then x + 30 else x)
    else if hasLowMood s then
      (if category t = Reflection \<or> category t = Cognitive then x + 30 else x)
    else if hasStress s then
      (if category t = Movement \<or> category t = Grounding then x + 30 else x)
    else x)
   = x + (if hasCrisis s then
           (if category t = Breathing \<or> category t = Grounding then 30 else 0)
         else if hasLowMood s then
           (if category t = Reflection \<or> category t = Cognitive then 30 else 0)
         else if hasStress s then
           (if category t = Movement \<or> category t = Grounding then 30 else 0)
         else 0)" for x :: int
  by simp

lemma intensity_block:
  "(if num_ge (moodIntensity c) 7 then
      (let s = (if intensityLevel t = High then x + 20 else x)
       in if intensityLevel t = Medium then s + 10 else s)
    else if num_ge (moodIntensity c) 4 then
      (let s = (if intensityLevel t = Medium then x + 20 else x)
       in if intensityLevel t = Low then s + 15 else s)
    else
      (let s = (if intensityLevel t = Low then x + 20 else x)
       in if intensityLevel t = Medium then s + 10 else s))
   = x + intensityMatching t c"
  by (cases "intensityLevel t") (simp_all add: intensityMatching_def)

lemma duration_block:
  "(if \<not> truthy (currentMood c) \<or> currentMood c = Some ''neutral''
    then (if durationMinutes t \<le> 3 then x + 10
          else if durationMinutes t \<le> 5 then x + 5
          else x)
    else x)
   = x + durationPreference t c"
  by (simp add: durationPreference_def)

lemma scoreTool_components:
  "scoreTool t c =
     min (moodCompatibility t c + sentimentAlignment t c + intensityMatching t c
            + durationPreference t c) 100"
  unfolding scoreTool_def intensity_block
  unfolding sentimentAlignment_def Let_def duration_block sentiment_block mood_block
  by simp

text \<open>
  The duration component needs an absent or neutral mood; with an absent mood the mood
  component is 0, so the two together never exceed 50 and the sum never exceeds 100.
\<close>

lemma mood_duration_le_50: "moodCompatibility t c + durationPreference t c \<le> 50"
proof (cases "truthy (currentMood c)")
  case True
  have "moodCompatibility t c \<le> 40" using moodCompatibility_range [of t c] by auto
  moreover have "durationPreference t c \<le> 10" using durationPreference_range [of t c] by auto
  ultimately show ?thesis by linarith
next
  case False
  then have "moodCompatibility t c = 0" by (simp add: moodCompatibility_def)
  moreover have "durationPreference t c \<le> 10" using durationPreference_range [of t c] by auto
  ultimately show ?thesis by linarith
qed

lemma component_sum_le_100:
  "moodCompatibility t c + sentimentAlignment t c + intensityMatching t c
     + durationPreference t c \<le> 100"
proof -
  have s: "sentimentAlignment t c \<le> 30" using sentimentAlignment_range [of t c] by auto
  have i: "intensityMatching t c \<le> 20" using intensityMatching_range [of t c] by auto
  from s i mood_duration_le_50 [of t c] show ?thesis by linarith
qed

lemma scoreTool_sum:
  "scoreTool t c =
     moodCompatibility t c + sentimentAlignment t c + intensityMatching t c
       + durationPreference t c"
  using component_sum_le_100 [of t c] by (simp add: scoreTool_components)

text \<open>
  Claim C1. For every tool and every context the score is an integer between 0 and 100
  inclusive, and it is the sum of the four components, each of them non-negative,
  clamped above at 100.
\<close>

theorem score_range_and_clamped_sum:
  "0 \<le> scoreTool t c \<and> scoreTool t c \<le> 100
   \<and> scoreTool t c =
       min (moodCompatibility t c + sentimentAlignment t c + intensityMatching t c
              + durationPreference t c) 100
   \<and> 0 \<le> moodCompatibility t c \<and> 0 \<le> sentimentAlignment t c
   \<and> 0 \<le> intensityMatching t c \<and> 0 \<le> durationPreference t c"
proof -
  have m: "0 \<le> moodCompatibility t c" using moodCompatibility_range [of t c] by auto
  have s: "0 \<le> sentimentAlignment t c" using sentimentAlignment_range [of t c] by auto
  have i: "0 \<le> intensityMatching t c" using intensityMatching_range [of t c] by auto
  have d: "0 \<le> durationPreference t c" using durationPreference_range [of t c] by auto
  have "0 \<le> scoreTool t c" using m s i d by (simp add: scoreTool_components)
  moreover have "scoreTool t c \<le> 100" by (simp add: scoreTool_components)
  ultimately show ?thesis using m s i d scoreTool_components [of t c] by simp
qed

text \<open>The 4-7-8 breathing tool under a neutral mood and a crisis keyword reaches 100.\<close>

theorem score_range_and_clamped_sum_witness:
  "scoreTool breathing_478 neutral_crisis_context = 100
   \<and> moodCompatibility breathing_478 neutral_crisis_context = 40
   \<and> sentimentAlignment breathing_478 neutral_crisis_context = 30
   \<and> intensityMatching breathing_478 neutral_crisis_context = 20
   \<and> durationPreference breathing_478 neutral_crisis_context = 10"
  using score_range_and_clamped_sum [of breathing_478 neutral_crisis_context]
  by (simp add: breathing_478_def neutral_crisis_context_def moodCompatibility_def
      sentimentAlignment_def intensityMatching_def durationPreference_def analyze_panic)

text \<open>
  Claim C4. In a context whose current mood is present (a mood is a non-empty string),
  a tool whose supportedMoods contains the current mood scores exactly 20 more than the
  tool that differs from it in supportedMoods only and does not contain the mood; the
  cap at 100 does not reduce the difference.
\<close>

theorem supported_mood_adds_20:
  assumes "currentMood c = Some m" and "m \<noteq> []"
    and "m \<in> set (supportedMoods t)" and "m \<notin> set ms"
  shows "scoreTool t c = scoreTool (t\<lparr>supportedMoods := ms\<rparr>) c + 20"
proof -
  let ?t' = "t\<lparr>supportedMoods := ms\<rparr>"
  have "moodCompatibility t c = 40" using assms by (simp add: moodCompatibility_def)
  moreover have "moodCompatibility ?t' c = 20" using assms by (simp add: moodCompatibility_def)
  moreover have "sentimentAlignment ?t' c = sentimentAlignment t c"
    by (simp add: sentimentAlignment_def)
  moreover have "intensityMatching ?t' c = intensityMatching t c"
    by (simp add: intensityMatching_def)
  moreover have "durationPreference ?t' c = durationPreference t c"
    by (simp add: durationPreference_def)
  ultimately show ?thesis by (simp add: scoreTool_sum)
qed

text \<open>At the top of the scale: 100 with the neutral mood supported, 80 without.\<close>

theorem supported_mood_adds_20_witness:
  "scoreTool breathing_478 neutral_crisis_context = 100
   \<and> scoreTool (breathing_478\<lparr>supportedMoods := [''anxious'', ''sad'']\<rparr>)
         neutral_crisis_context = 80"
proof -
  have "scoreTool (breathing_478\<lparr>supportedMoods := [''anxious'', ''sad'']\<rparr>)
          neutral_crisis_context = 80"
    by (simp add: scoreTool_sum breathing_478_def neutral_crisis_context_def
        moodCompatibility_def sentimentAlignment_def intensityMatching_def
        durationPreference_def analyze_panic)
  then show ?thesis
    using supported_mood_adds_20 [of neutral_crisis_context "''neutral''" breathing_478
        "[''anxious'', ''sad'']"]
    by (simp add: breathing_478_def neutral_crisis_context_def)
qed

text \<open>
  Claim C9. In the context with currentMood anxious, moodIntensity 8 and the chat summary
  "I'm having a panic attack, can't breathe" (whatever its chatKeywords) the analyzer
  finds a crisis, and every breathing tool with intensityLevel high whose supportedMoods
  contains anxious scores exactly 90.
\<close>

theorem scenario_A_breathing_scores_90:
  assumes "category t = Breathing" and "''anxious'' \<in> set (supportedMoods t)"
    and "intensityLevel t = High"
  shows "scoreTool t \<lparr>currentMood = Some ''anxious'', moodIntensity = Some 8,
            recentChatSummary = ''I'm having a panic attack, can't breathe'',
            chatKeywords = k\<rparr> = 90
         \<and> hasCrisis (analyzeChatSentiment ''I'm having a panic attack, can't breathe'')"
  using assms
  by (simp add: scoreTool_sum moodCompatibility_def sentimentAlignment_def
      intensityMatching_def durationPreference_def analyze_scenario_A)

theorem scenario_A_breathing_scores_90_witness:
  "scoreTool box_breathing scenario_A = 90"
  using scenario_A_breathing_scores_90 [of box_breathing "[''panic'']"]
  by (simp add: box_breathing_def scenario_A_def)

text \<open>
  Claim C10. Two contexts that agree on currentMood, moodIntensity and recentChatSummary
  get the same score and the same explanation for every tool, whatever their
  chatKeywords.
\<close>

theorem chatKeywords_never_consulted:
  assumes "currentMood c1 = currentMood c2" and "moodIntensity c1 = moodIntensity c2"
    and "recentChatSummary c1 = recentChatSummary c2"
  shows "scoreTool t c1 = scoreTool t c2
         \<and> generateExplanation t c1 = generateExplanation t c2"
  unfolding scoreTool_def generateExplanation_def explanationReasons_def assms
  by (rule conjI) (rule refl)+

theorem chatKeywords_never_consulted_witness:
  "scoreTool box_breathing (scenario_A\<lparr>chatKeywords := [''deadline'', ''numb'']\<rparr>)
     = scoreTool box_breathing scenario_A
   \<and> generateExplanation box_breathing (scenario_A\<lparr>chatKeywords := [''deadline'', ''numb'']\<rparr>)
     = generateExplanation box_breathing scenario_A
   \<and> chatKeywords (scenario_A\<lparr>chatKeywords := [''deadline'', ''numb'']\<rparr>)
     \<noteq> chatKeywords scenario_A"
  using chatKeywords_never_consulted
    [of "scenario_A\<lparr>chatKeywords := [''deadline'', ''numb'']\<rparr>" scenario_A box_breathing]
  by (simp add: scenario_A_def)

text \<open>
  Claim C2, at a chat summary that names the crisis keyword "panic" and the stress
  keyword "stressed", for the Movement Reset tool. Both flags are true. In \<open>scoreTool\<close>
  the crisis branch is taken and the stress branch adds nothing (the sentiment component
  is 0, the score 50). In \<open>generateExplanation\<close> the crisis condition also tests the
  category, fails for a movement tool, and the chain falls through to the stress
  condition, which adds its fragment.
\<close>

theorem crisis_and_stress_movement_explanation:
  "hasCrisis (analyzeChatSentiment (recentChatSummary crisis_and_stress_context))
   \<and> hasStress (analyzeChatSentiment (recentChatSummary crisis_and_stress_context))
   \<and> sentimentAlignment movement_reset crisis_and_stress_context = 0
   \<and> scoreTool movement_reset crisis_and_stress_context = 50
   \<and> explanationReasons movement_reset crisis_and_stress_context
       = [''you felt anxious today'', ''you mentioned feeling stressed or tense'']
   \<and> generateExplanation movement_reset crisis_and_stress_context
       = ''This technique is suggested because you felt anxious today and you mentioned feeling stressed or tense.''"
  by (simp add: crisis_and_stress_context_def movement_reset_def analyze_crisis_and_stress
      sentimentAlignment_def scoreTool_def explanationReasons_def generateExplanation_def)

text \<open>The stress fragment is among the reasons although stress added nothing to the score.\<close>

theorem crisis_and_stress_movement_explanation_witness:
  "''you mentioned feeling stressed or tense''
     \<in> set (explanationReasons movement_reset crisis_and_stress_context)
   \<and> sentimentAlignment movement_reset crisis_and_stress_context = 0"
  using crisis_and_stress_movement_explanation by simp

text \<open>In \<open>scoreTool\<close> a crisis flag alone decides the sentiment component.\<close>

lemma crisis_priority_score:
  assumes "hasCrisis (analyzeChatSentiment (recentChatSummary c))"
  shows "sentimentAlignment t c
           = (if category t = Breathing \<or> category t = Grounding then 30 else 0)"
  using assms by (simp add: sentimentAlignment_def)

text \<open>
  In \<open>generateExplanation\<close> it does not: for a movement tool the stress fragment is
  added whenever the stress flag is true, with or without a crisis.
\<close>

lemma stress_fragment_for_movement:
  assumes "hasStress (analyzeChatSentiment (recentChatSummary c))"
    and "category t = Movement"
  shows "''you mentioned feeling stressed or tense'' \<in> set (explanationReasons t c)"
  using assms by (simp add: explanationReasons_def Let_def split: option.splits)

subsection \<open>The recommendation orchestrator\<close>

lemma insert_cmp_insort:
  "insert_cmp (\<lambda>a b. score b - score a) x ys = insort_key (\<lambda>r. - score r) x ys"
  by (induction ys) auto

lemma array_sort_sort_key:
  "array_sort (\<lambda>a b. score b - score a) xs = sort_key (\<lambda>r. - score r) xs"
  by (induction xs) (simp_all add: array_sort_def insert_cmp_insort)

lemma score_scored: "score (scored context tool) = scoreTool tool context"
  by (simp add: scored_def CopingTool.defs RecommendedTool.defs)

lemma sorted_getRecommended:
  "sorted_wrt (\<lambda>a b. score a \<ge> score b) (getRecommendedCopingTools tools context)"
proof -
  have "sorted (map (\<lambda>r. - score r) (getRecommendedCopingTools tools context))"
    by (simp add: getRecommendedCopingTools_def array_sort_sort_key)
  then show ?thesis by (simp add: sorted_map)
qed

lemma stable_getRecommended:
  "filter (\<lambda>r. score r = k) (getRecommendedCopingTools tools context)
     = map (scored context) (filter (\<lambda>tool. scoreTool tool context = k) tools)"
proof -
  have "filter (\<lambda>r. - score r = - k) (sort_key (\<lambda>r. - score r) (map (scored context) tools))
        = filter (\<lambda>r. - score r = - k) (map (scored context) tools)"
    by (rule sort_key_stable)
  then have "filter (\<lambda>r. score r = k) (getRecommendedCopingTools tools context)
        = filter (\<lambda>r. score r = k) (map (scored context) tools)"
    by (simp add: getRecommendedCopingTools_def array_sort_sort_key)
  then show ?thesis by (simp add: filter_map comp_def score_scored)
qed

lemma scenario_A_scores:
  "scoreTool movement_reset scenario_A = 50"
  "scoreTool box_breathing scenario_A = 90"
  "scoreTool grounding_54321 scenario_A = 90"
  by (simp_all add: scoreTool_sum movement_reset_def box_breathing_def grounding_54321_def
      scenario_A_def moodCompatibility_def sentimentAlignment_def intensityMatching_def
      durationPreference_def analyze_scenario_A)

text \<open>
  Claim C5. The returned sequence is in non-increasing order of score, and for every
  score \<open>k\<close> the entries with score \<open>k\<close> are, in the order returned, the entries of the
  catalog tools with score \<open>k\<close> in catalog order: ties keep their catalog order.
\<close>

theorem recommendations_stably_sorted:
  "sorted_wrt (\<lambda>a b. score a \<ge> score b) (getRecommendedCopingTools tools context)
   \<and> filter (\<lambda>r. score r = k) (getRecommendedCopingTools tools context)
       = map (scored context) (filter (\<lambda>tool. scoreTool tool context = k) tools)"
  by (simp only: sorted_getRecommended stable_getRecommended simp_thms)

text \<open>
  Scenario A over three catalog entries: the two tools that score 90 keep their catalog
  order, before the tool that scores 50.
\<close>

theorem recommendations_stably_sorted_witness:
  "map tool_id (getRecommendedCopingTools
       [movement_reset, box_breathing, grounding_54321] scenario_A)
     = [''box-breathing'', ''54321-grounding'', ''quick-exercises'']
   \<and> map score (getRecommendedCopingTools
       [movement_reset, box_breathing, grounding_54321] scenario_A) = [90, 90, 50]"
proof -
  have "getRecommendedCopingTools [movement_reset, box_breathing, grounding_54321] scenario_A
        = [scored scenario_A box_breathing, scored scenario_A grounding_54321,
           scored scenario_A movement_reset]"
    by (simp add: getRecommendedCopingTools_def array_sort_def score_scored scenario_A_scores)
  moreover have "tool_id (scored scenario_A t) = tool_id t" for t
    by (simp add: scored_def CopingTool.defs)
  moreover have "tool_id box_breathing = ''box-breathing''"
    and "tool_id grounding_54321 = ''54321-grounding''"
    and "tool_id movement_reset = ''quick-exercises''"
    by (simp_all add: movement_reset_def box_breathing_def grounding_54321_def)
  ultimately show ?thesis
    using recommendations_stably_sorted
      [of "[movement_reset, box_breathing, grounding_54321]" scenario_A 90]
    by (simp add: score_scored scenario_A_scores)
qed

text \<open>
  Claim C6. A catalog of N tools gives exactly N entries, namely the scored entry of each
  catalog tool, none filtered out or dropped; the empty catalog gives the empty
  sequence.
\<close>

theorem recommendations_keep_length:
  "length (getRecommendedCopingTools tools context) = length tools
   \<and> mset (getRecommendedCopingTools tools context) = mset (map (scored context) tools)
   \<and> getRecommendedCopingTools [] context = []"
  by (simp add: getRecommendedCopingTools_def array_sort_sort_key)

theorem recommendations_keep_length_witness:
  "length (getRecommendedCopingTools
       [movement_reset, box_breathing, grounding_54321] scenario_A) = 3"
  using recommendations_keep_length
      [of "[movement_reset, box_breathing, grounding_54321]" scenario_A]
  by simp

subsection \<open>Context construction\<close>

text \<open>\<open>buildRecommendationContext\<close> returns a context on every input.\<close>

lemma build_returns:
  "buildRecommendationContext toDateString today checkIns chatMessages =
     Inr \<lparr>currentMood =
            (case filter (\<lambda>item. toDateString (createdAt item) = today) checkIns of
               [] \<Rightarrow> None | first # _ \<Rightarrow> Some (mood first)),
          moodIntensity =
            getMoodIntensity
              (case filter (\<lambda>item. toDateString (createdAt item) = today) checkIns of
                 [] \<Rightarrow> None | first # _ \<Rightarrow> Some (mood first)),
          recentChatSummary =
            (case chatMessages of
               Some ms \<Rightarrow> join '' '' (map msg_text (take 5 ms)) | None \<Rightarrow> []),
          chatKeywords =
            matched_keywords (analyzeChatSentiment
              (case chatMessages of
                 Some ms \<Rightarrow> join '' '' (map msg_text (take 5 ms)) | None \<Rightarrow> []))\<rparr>"
  by (simp add: buildRecommendationContext_def Let_def)

text \<open>The intensity table has an entry between 1 and 10 for the six moods and no other.\<close>

lemma getMoodIntensity_inside:
  "m \<in> set MOODS \<Longrightarrow> \<exists>n. getMoodIntensity (Some m) = Some n \<and> 1 \<le> n \<and> n \<le> 10"
  by (auto simp: getMoodIntensity_def MOODS_def intensityMap_def)

lemma getMoodIntensity_outside:
  "m \<notin> set MOODS \<Longrightarrow> getMoodIntensity (Some m) = (if m = [] then Some 5 else None)"
  by (auto simp: getMoodIntensity_def MOODS_def intensityMap_def)

text \<open>
  Claim C3 fails: a check-in dated today with the mood "angry", which is outside the
  closed set, does not make context construction fail. The context is returned, with
  the mood as it came and an intensity that is \<open>undefined\<close>.
\<close>

theorem invalid_mood_not_rejected:
  "buildRecommendationContext id ''Mon Nov 02 2026''
     [\<lparr>mood = ''angry'', createdAt = ''Mon Nov 02 2026''\<rparr>] None
   = Inr \<lparr>currentMood = Some ''angry'', moodIntensity = None,
          recentChatSummary = [], chatKeywords = []\<rparr>
   \<and> ''angry'' \<notin> set MOODS
   \<and> buildRecommendationContext id ''Mon Nov 02 2026''
     [\<lparr>mood = ''angry'', createdAt = ''Mon Nov 02 2026''\<rparr>] None \<noteq> Inl InvalidInput"
  by (simp add: build_returns analyze_empty getMoodIntensity_def intensityMap_def MOODS_def)

text \<open>
  Claim C3 as amended. When the first check-in dated today has a mood outside the closed
  set, context construction returns a context: its currentMood is that value, unchecked,
  and its moodIntensity is what the table lookup gives, which is \<open>undefined\<close> (and the
  default 5 for the empty string, which is falsy).
\<close>

theorem invalid_mood_passes_through:
  assumes "filter (\<lambda>item. toDateString (createdAt item) = today) checkIns = ci # rest"
    and "mood ci \<notin> set MOODS"
  shows "\<exists>ctx. buildRecommendationContext toDateString today checkIns chatMessages = Inr ctx
           \<and> currentMood ctx = Some (mood ci)
           \<and> moodIntensity ctx = (if mood ci = [] then Some 5 else None)"
  using assms by (simp add: build_returns getMoodIntensity_outside)

theorem invalid_mood_passes_through_witness:
  "\<exists>ctx. buildRecommendationContext id ''Mon Nov 02 2026''
            [\<lparr>mood = ''sad'', createdAt = ''Sun Nov 01 2026''\<rparr>,
             \<lparr>mood = ''angry'', createdAt = ''Mon Nov 02 2026''\<rparr>] None = Inr ctx
         \<and> currentMood ctx = Some ''angry'' \<and> moodIntensity ctx = None"
  using invalid_mood_passes_through [of id "''Mon Nov 02 2026''"
      "[\<lparr>mood = ''sad'', createdAt = ''Sun Nov 01 2026''\<rparr>,
        \<lparr>mood = ''angry'', createdAt = ''Mon Nov 02 2026''\<rparr>]"
      "\<lparr>mood = ''angry'', createdAt = ''Mon Nov 02 2026''\<rparr>" "[]" None]
  by (simp add: MOODS_def)

text \<open>
  Claim C8. Context construction returns a context, never a failure, on the edge inputs:
  when no check-in is dated today, currentMood is absent and moodIntensity is 5; when
  the chat-message sequence is empty, recentChatSummary is the empty string, the
  keywords list is empty and the analyzer's three flags on that summary are false.
\<close>

theorem edge_inputs_get_defaults:
  "((\<forall>ci \<in> set checkIns. toDateString (createdAt ci) \<noteq> today) \<longrightarrow>
      (\<exists>ctx. buildRecommendationContext toDateString today checkIns chatMessages = Inr ctx
         \<and> currentMood ctx = None \<and> moodIntensity ctx = Some 5))
   \<and> (\<exists>ctx. buildRecommendationContext toDateString today checkIns (Some []) = Inr ctx
         \<and> recentChatSummary ctx = [] \<and> chatKeywords ctx = []
         \<and> \<not> hasCrisis (analyzeChatSentiment (recentChatSummary ctx))
         \<and> \<not> hasLowMood (analyzeChatSentiment (recentChatSummary ctx))
         \<and> \<not> hasStress (analyzeChatSentiment (recentChatSummary ctx)))"
proof (intro conjI impI)
  assume "\<forall>ci \<in> set checkIns. toDateString (createdAt ci) \<noteq> today"
  then have "filter (\<lambda>item. toDateString (createdAt item) = today) checkIns = []"
    by (simp add: filter_empty_conv)
  then show "\<exists>ctx. buildRecommendationContext toDateString today checkIns chatMessages = Inr ctx
         \<and> currentMood ctx = None \<and> moodIntensity ctx = Some 5"
    by (simp add: build_returns getMoodIntensity_def)
next
  show "\<exists>ctx. buildRecommendationContext toDateString today checkIns (Some []) = Inr ctx
         \<and> recentChatSummary ctx = [] \<and> chatKeywords ctx = []
         \<and> \<not> hasCrisis (analyzeChatSentiment (recentChatSummary ctx))
         \<and> \<not> hasLowMood (analyzeChatSentiment (recentChatSummary ctx))
         \<and> \<not> hasStress (analyzeChatSentiment (recentChatSummary ctx))"
    by (simp add: build_returns analyze_empty)
qed

theorem edge_inputs_get_defaults_witness:
  "\<exists>ctx. buildRecommendationContext id ''Mon Nov 02 2026''
            [\<lparr>mood = ''sad'', createdAt = ''Sun Nov 01 2026''\<rparr>] (Some []) = Inr ctx
         \<and> currentMood ctx = None \<and> moodIntensity ctx = Some 5
         \<and> recentChatSummary ctx = [] \<and> chatKeywords ctx = []"
  using edge_inputs_get_defaults [of "[\<lparr>mood = ''sad'', createdAt = ''Sun Nov 01 2026''\<rparr>]" id
      "''Mon Nov 02 2026''" "Some []"]
  by auto

end
